theory Spec2Isabelle
  imports Complex_Main
begin

section \<open>Python values used by the telemetry receptor\<close>

text \<open>
  The receptor (\<^verbatim>\<open>fc_telemetry_receptor.py\<close>) stores Python floats and ints.  A float is
  either a finite number, an infinity or a NaN; the finite ones are rationals.  The rounding
  of float arithmetic and the sign of a zero are not modelled: a finite float is identified
  with the rational it denotes.
\<close>

datatype pyfloat = Finite rat | PosInf | NegInf | NaN

datatype pyval = PyFloat pyfloat | PyInt int

text \<open>The built-in exceptions the modelled code can raise.\<close>

datatype error = IndexError | ValueError | OverflowError

text \<open>
  \<^verbatim>\<open>int(x)\<close> on a float truncates towards zero; it raises \<^verbatim>\<open>ValueError\<close> on a NaN and
  \<^verbatim>\<open>OverflowError\<close> on an infinity.
\<close>

definition truncate_rat :: "rat \<Rightarrow> int" where
  "truncate_rat x = (if 0 \<le> x then \<lfloor>x\<rfloor> else \<lceil>x\<rceil>)"

fun py_int :: "pyfloat \<Rightarrow> error + int" where
  "py_int (Finite x) = Inr (truncate_rat x)"
| "py_int NaN = Inl ValueError"
| "py_int PosInf = Inl OverflowError"
| "py_int NegInf = Inl OverflowError"

text \<open>The floats that \<^verbatim>\<open>int\<close> accepts (\<^verbatim>\<open>math.isfinite\<close>).\<close>

fun is_finite :: "pyfloat \<Rightarrow> bool" where
  "is_finite (Finite x) = True"
| "is_finite NaN = False"
| "is_finite PosInf = False"
| "is_finite NegInf = False"

text \<open>\<^verbatim>\<open>xs[i]\<close> for a non-negative index: \<^verbatim>\<open>IndexError\<close> when out of range.\<close>

definition py_index :: "'a list \<Rightarrow> nat \<Rightarrow> error + 'a" where
  "py_index xs i = (if i < length xs then Inr (xs ! i) else Inl IndexError)"

subsection \<open>Strings: join, split and number formatting\<close>

text \<open>\<^verbatim>\<open>sep.join(xs)\<close>.\<close>

fun py_join :: "string \<Rightarrow> string list \<Rightarrow> string" where
  "py_join sep [] = []"
| "py_join sep [x] = x"
| "py_join sep (x # y # ys) = x @ sep @ py_join sep (y # ys)"

text \<open>
  \<^verbatim>\<open>s.split(c)\<close> for a one-character separator: the comma-delimited values of a line.
  The empty string splits into one empty value.
\<close>

fun py_split :: "char \<Rightarrow> string \<Rightarrow> string list" where
  "py_split c [] = [[]]"
| "py_split c (x # xs) =
     (if x = c then [] # py_split c xs
      else (x # hd (py_split c xs)) # tl (py_split c xs))"

definition digit_char :: "nat \<Rightarrow> char" where
  "digit_char d = ''0123456789'' ! (d mod 10)"

function digits :: "nat \<Rightarrow> string" where
  "digits n = (if n < 10 then [digit_char n] else digits (n div 10) @ [digit_char (n mod 10)])"
  by pat_completeness auto
termination
  by (relation "measure (\<lambda>n. n)") auto

declare digits.simps [simp del]

text \<open>Format code \<^verbatim>\<open>d\<close> on an int.\<close>

definition format_decimal :: "int \<Rightarrow> string" where
  "format_decimal i = (if i < 0 then ''-'' else []) @ digits (nat \<bar>i\<bar>)"

text \<open>
  Format code \<^verbatim>\<open>.kf\<close> on a float: fixed notation with \<open>k\<close> decimals, the exact value
  rounded half to even; \<^verbatim>\<open>nan\<close>, \<^verbatim>\<open>inf\<close> and \<^verbatim>\<open>-inf\<close> for the non-finite floats.
\<close>

definition round_half_even :: "rat \<Rightarrow> int" where
  "round_half_even x =
     (let f = \<lfloor>x\<rfloor>; d = x - of_int f
      in if d < 1 / 2 then f else if 1 / 2 < d then f + 1 else if even f then f else f + 1)"

definition zero_pad :: "nat \<Rightarrow> string \<Rightarrow> string" where
  "zero_pad k s = replicate (k - length s) CHR ''0'' @ s"

fun format_fixed :: "nat \<Rightarrow> pyfloat \<Rightarrow> string" where
  "format_fixed k (Finite x) =
     (let q = nat (round_half_even (\<bar>x\<bar> * 10 ^ k))
      in (if x < 0 then ''-'' else []) @ digits (q div 10 ^ k)
         @ (if k = 0 then [] else ''.'' @ zero_pad k (digits (q mod 10 ^ k))))"
| "format_fixed k NaN = ''nan''"
| "format_fixed k PosInf = ''inf''"
| "format_fixed k NegInf = ''-inf''"

text \<open>
  The two kinds of format specification in the field-format table: \<^verbatim>\<open>".kf"\<close> is
  \<open>Fixed k\<close> and \<^verbatim>\<open>"d"\<close> is \<open>Decimal\<close>.  \<^verbatim>\<open>f"{value:{spec}}"\<close> accepts an int under
  \<^verbatim>\<open>.kf\<close> (it is converted to a float) and raises \<^verbatim>\<open>ValueError\<close> for a float under \<^verbatim>\<open>d\<close>.
\<close>

datatype format_spec = Fixed nat | Decimal

fun py_format :: "format_spec \<Rightarrow> pyval \<Rightarrow> error + string" where
  "py_format (Fixed k) (PyFloat x) = Inr (format_fixed k x)"
| "py_format (Fixed k) (PyInt i) = Inr (format_fixed k (Finite (of_int i)))"
| "py_format Decimal (PyInt i) = Inr (format_decimal i)"
| "py_format Decimal (PyFloat x) = Inl ValueError"

section \<open>The snapshot: \<^verbatim>\<open>FcTelemetryData\<close>\<close>

record FcTelemetryData =
  timestamp_ms :: pyfloat
  latitude_deg :: pyfloat
  longitude_deg :: pyfloat
  altitude_m_amsl :: pyfloat
  altitude_m_rel :: pyfloat
  velocity_north_mps :: pyfloat
  velocity_east_mps :: pyfloat
  velocity_down_mps :: pyfloat
  roll_deg :: pyfloat
  pitch_deg :: pyfloat
  yaw_deg :: pyfloat
  q_w :: pyfloat
  q_x :: pyfloat
  q_y :: pyfloat
  q_z :: pyfloat
  accel_body_x_m_per_s2 :: pyfloat
  accel_body_y_m_per_s2 :: pyfloat
  accel_body_z_m_per_s2 :: pyfloat
  angular_vel_body_x_rad_ps :: pyfloat
  angular_vel_body_y_rad_ps :: pyfloat
  angular_vel_body_z_rad_ps :: pyfloat
  motor_out :: int
  servo1_out :: int
  servo2_out :: int
  servo3_out :: int

text \<open>
  The constructor \<^verbatim>\<open>FcTelemetryData(timestamp_ms=t)\<close>: every other field takes its
  declared default.
\<close>

definition FcTelemetryData_init :: "pyfloat \<Rightarrow> FcTelemetryData" where
  "FcTelemetryData_init t =
     \<lparr> timestamp_ms = t,
       latitude_deg = Finite 0, longitude_deg = Finite 0,
       altitude_m_amsl = Finite 0, altitude_m_rel = Finite 0,
       velocity_north_mps = Finite 0, velocity_east_mps = Finite 0,
       velocity_down_mps = Finite 0,
       roll_deg = Finite 0, pitch_deg = Finite 0, yaw_deg = Finite 0,
       q_w = Finite 1, q_x = Finite 0, q_y = Finite 0, q_z = Finite 0,
       accel_body_x_m_per_s2 = Finite 0, accel_body_y_m_per_s2 = Finite 0,
       accel_body_z_m_per_s2 = Finite 0,
       angular_vel_body_x_rad_ps = Finite 0, angular_vel_body_y_rad_ps = Finite 0,
       angular_vel_body_z_rad_ps = Finite 0,
       motor_out = 0, servo1_out = 0, servo2_out = 0, servo3_out = 0 \<rparr>"

text \<open>
  The dataclass fields, as \<^verbatim>\<open>dataclasses.fields\<close> lists them: in declaration order.
\<close>

datatype field =
    F_timestamp_ms
  | F_latitude_deg | F_longitude_deg | F_altitude_m_amsl | F_altitude_m_rel
  | F_velocity_north_mps | F_velocity_east_mps | F_velocity_down_mps
  | F_roll_deg | F_pitch_deg | F_yaw_deg
  | F_q_w | F_q_x | F_q_y | F_q_z
  | F_accel_body_x_m_per_s2 | F_accel_body_y_m_per_s2 | F_accel_body_z_m_per_s2
  | F_angular_vel_body_x_rad_ps | F_angular_vel_body_y_rad_ps | F_angular_vel_body_z_rad_ps
  | F_motor_out | F_servo1_out | F_servo2_out | F_servo3_out

definition dataclass_fields :: "field list" where
  "dataclass_fields =
     [F_timestamp_ms,
      F_latitude_deg, F_longitude_deg, F_altitude_m_amsl, F_altitude_m_rel,
      F_velocity_north_mps, F_velocity_east_mps, F_velocity_down_mps,
      F_roll_deg, F_pitch_deg, F_yaw_deg,
      F_q_w, F_q_x, F_q_y, F_q_z,
      F_accel_body_x_m_per_s2, F_accel_body_y_m_per_s2, F_accel_body_z_m_per_s2,
      F_angular_vel_body_x_rad_ps, F_angular_vel_body_y_rad_ps, F_angular_vel_body_z_rad_ps,
      F_motor_out, F_servo1_out, F_servo2_out, F_servo3_out]"

fun field_name :: "field \<Rightarrow> string" where
  "field_name F_timestamp_ms = ''timestamp_ms''"
| "field_name F_latitude_deg = ''latitude_deg''"
| "field_name F_longitude_deg = ''longitude_deg''"
| "field_name F_altitude_m_amsl = ''altitude_m_amsl''"
| "field_name F_altitude_m_rel = ''altitude_m_rel''"
| "field_name F_velocity_north_mps = ''velocity_north_mps''"
| "field_name F_velocity_east_mps = ''velocity_east_mps''"
| "field_name F_velocity_down_mps = ''velocity_down_mps''"
| "field_name F_roll_deg = ''roll_deg''"
| "field_name F_pitch_deg = ''pitch_deg''"
| "field_name F_yaw_deg = ''yaw_deg''"
| "field_name F_q_w = ''q_w''"
| "field_name F_q_x = ''q_x''"
| "field_name F_q_y = ''q_y''"
| "field_name F_q_z = ''q_z''"
| "field_name F_accel_body_x_m_per_s2 = ''accel_body_x_m_per_s2''"
| "field_name F_accel_body_y_m_per_s2 = ''accel_body_y_m_per_s2''"
| "field_name F_accel_body_z_m_per_s2 = ''accel_body_z_m_per_s2''"
| "field_name F_angular_vel_body_x_rad_ps = ''angular_vel_body_x_rad_ps''"
| "field_name F_angular_vel_body_y_rad_ps = ''angular_vel_body_y_rad_ps''"
| "field_name F_angular_vel_body_z_rad_ps = ''angular_vel_body_z_rad_ps''"
| "field_name F_motor_out = ''motor_out''"
| "field_name F_servo1_out = ''servo1_out''"
| "field_name F_servo2_out = ''servo2_out''"
| "field_name F_servo3_out = ''servo3_out''"

text \<open>\<^verbatim>\<open>getattr(self, field.name)\<close>.\<close>

fun getattr :: "FcTelemetryData \<Rightarrow> field \<Rightarrow> pyval" where
  "getattr d F_timestamp_ms = PyFloat (timestamp_ms d)"
| "getattr d F_latitude_deg = PyFloat (latitude_deg d)"
| "getattr d F_longitude_deg = PyFloat (longitude_deg d)"
| "getattr d F_altitude_m_amsl = PyFloat (altitude_m_amsl d)"
| "getattr d F_altitude_m_rel = PyFloat (altitude_m_rel d)"
| "getattr d F_velocity_north_mps = PyFloat (velocity_north_mps d)"
| "getattr d F_velocity_east_mps = PyFloat (velocity_east_mps d)"
| "getattr d F_velocity_down_mps = PyFloat (velocity_down_mps d)"
| "getattr d F_roll_deg = PyFloat (roll_deg d)"
| "getattr d F_pitch_deg = PyFloat (pitch_deg d)"
| "getattr d F_yaw_deg = PyFloat (yaw_deg d)"
| "getattr d F_q_w = PyFloat (q_w d)"
| "getattr d F_q_x = PyFloat (q_x d)"
| "getattr d F_q_y = PyFloat (q_y d)"
| "getattr d F_q_z = PyFloat (q_z d)"
| "getattr d F_accel_body_x_m_per_s2 = PyFloat (accel_body_x_m_per_s2 d)"
| "getattr d F_accel_body_y_m_per_s2 = PyFloat (accel_body_y_m_per_s2 d)"
| "getattr d F_accel_body_z_m_per_s2 = PyFloat (accel_body_z_m_per_s2 d)"
| "getattr d F_angular_vel_body_x_rad_ps = PyFloat (angular_vel_body_x_rad_ps d)"
| "getattr d F_angular_vel_body_y_rad_ps = PyFloat (angular_vel_body_y_rad_ps d)"
| "getattr d F_angular_vel_body_z_rad_ps = PyFloat (angular_vel_body_z_rad_ps d)"
| "getattr d F_motor_out = PyInt (motor_out d)"
| "getattr d F_servo1_out = PyInt (servo1_out d)"
| "getattr d F_servo2_out = PyInt (servo2_out d)"
| "getattr d F_servo3_out = PyInt (servo3_out d)"

text \<open>The field-format table \<^verbatim>\<open>_get_field_formats\<close>, a dict keyed by field.\<close>

fun get_field_formats :: "field \<Rightarrow> format_spec option" where
  "get_field_formats F_timestamp_ms = Some (Fixed 3)"
| "get_field_formats F_latitude_deg = Some (Fixed 8)"
| "get_field_formats F_longitude_deg = Some (Fixed 8)"
| "get_field_formats F_altitude_m_amsl = Some (Fixed 2)"
| "get_field_formats F_altitude_m_rel = Some (Fixed 2)"
| "get_field_formats F_velocity_north_mps = Some (Fixed 3)"
| "get_field_formats F_velocity_east_mps = Some (Fixed 3)"
| "get_field_formats F_velocity_down_mps = Some (Fixed 3)"
| "get_field_formats F_roll_deg = Some (Fixed 2)"
| "get_field_formats F_pitch_deg = Some (Fixed 2)"
| "get_field_formats F_yaw_deg = Some (Fixed 2)"
| "get_field_formats F_q_w = Some (Fixed 4)"
| "get_field_formats F_q_x = Some (Fixed 4)"
| "get_field_formats F_q_y = Some (Fixed 4)"
| "get_field_formats F_q_z = Some (Fixed 4)"
| "get_field_formats F_accel_body_x_m_per_s2 = Some (Fixed 3)"
| "get_field_formats F_accel_body_y_m_per_s2 = Some (Fixed 3)"
| "get_field_formats F_accel_body_z_m_per_s2 = Some (Fixed 3)"
| "get_field_formats F_angular_vel_body_x_rad_ps = Some (Fixed 4)"
| "get_field_formats F_angular_vel_body_y_rad_ps = Some (Fixed 4)"
| "get_field_formats F_angular_vel_body_z_rad_ps = Some (Fixed 4)"
| "get_field_formats F_motor_out = Some Decimal"
| "get_field_formats F_servo1_out = Some Decimal"
| "get_field_formats F_servo2_out = Some Decimal"
| "get_field_formats F_servo3_out = Some Decimal"

text \<open>
  \<^verbatim>\<open>to_csv_row\<close>: one formatted value per field, in the order of \<open>dataclass_fields\<close>, joined by
  commas.  A field without a format falls back to \<^verbatim>\<open>str(value)\<close>; that built-in is the
  parameter \<open>str\<close> (the repr of a float is not modelled).
\<close>

definition format_field :: "(pyval \<Rightarrow> string) \<Rightarrow> FcTelemetryData \<Rightarrow> field \<Rightarrow> error + string" where
  "format_field str d f =
     (case get_field_formats f of
        Some spec \<Rightarrow> py_format spec (getattr d f)
      | None \<Rightarrow> Inr (str (getattr d f)))"

fun csv_values :: "(pyval \<Rightarrow> string) \<Rightarrow> FcTelemetryData \<Rightarrow> field list \<Rightarrow> error + string list" where
  "csv_values str d [] = Inr []"
| "csv_values str d (f # fs) =
     (case format_field str d f of
        Inl e \<Rightarrow> Inl e
      | Inr v \<Rightarrow> (case csv_values str d fs of Inl e \<Rightarrow> Inl e | Inr vs \<Rightarrow> Inr (v # vs)))"

definition to_csv_row :: "(pyval \<Rightarrow> string) \<Rightarrow> FcTelemetryData \<Rightarrow> error + string" where
  "to_csv_row str d =
     (case csv_values str d dataclass_fields of Inl e \<Rightarrow> Inl e | Inr vs \<Rightarrow> Inr (py_join '','' vs))"

definition csv_header :: string where
  "csv_header = py_join '','' (map field_name dataclass_fields)"

section \<open>The collector: \<^verbatim>\<open>FcTelemetryCollector\<close>\<close>

text \<open>
  Python objects are mutable and shared by reference.  The object store is a list of
  snapshot objects, an address is an index into it, and a new object is appended at the
  end.  The collector holds the address of its canonical snapshot and its stop flag
  \<^verbatim>\<open>_running\<close>; the vehicle handle and the lock are not modelled.
\<close>

type_synonym heap = "FcTelemetryData list"

record FcTelemetryCollector =
  current_data :: nat
  collector_running :: bool

text \<open>\<^verbatim>\<open>__init__\<close>, with \<open>now\<close> the value of \<^verbatim>\<open>time.time()\<close> (seconds).\<close>

definition FcTelemetryCollector_init :: "rat \<Rightarrow> heap \<Rightarrow> FcTelemetryCollector \<times> heap" where
  "FcTelemetryCollector_init now h =
     (\<lparr> current_data = length h, collector_running = False \<rparr>,
      h @ [FcTelemetryData_init (Finite now)])"

definition start_telemetry_streams :: "FcTelemetryCollector \<Rightarrow> FcTelemetryCollector" where
  "start_telemetry_streams c = c\<lparr>collector_running := True\<rparr>"


text \<open>
  \<^verbatim>\<open>dataclasses.replace(obj, timestamp_ms=t)\<close> builds a new object from the fields of
  \<open>obj\<close>, with the timestamp replaced.
\<close>

definition replace_timestamp_ms :: "FcTelemetryData \<Rightarrow> pyfloat \<Rightarrow> FcTelemetryData" where
  "replace_timestamp_ms d t = d\<lparr>timestamp_ms := t\<rparr>"

text \<open>
  \<^verbatim>\<open>get_latest_data\<close>, with \<open>now\<close> the value of \<^verbatim>\<open>time.time()\<close>: returns the address of
  the new object and the store that holds it.
\<close>

definition get_latest_data :: "FcTelemetryCollector \<Rightarrow> rat \<Rightarrow> heap \<Rightarrow> nat \<times> heap" where
  "get_latest_data c now h =
     (length h, h @ [replace_timestamp_ms (h ! current_data c) (Finite (now * 1000))])"

text \<open>An in-place change \<open>g\<close> of the object at address \<open>a\<close> (any attribute assignments).\<close>

definition mutate :: "nat \<Rightarrow> (FcTelemetryData \<Rightarrow> FcTelemetryData) \<Rightarrow> heap \<Rightarrow> heap" where
  "mutate a g h = h[a := g (h ! a)]"

subsection \<open>The records delivered by the six telemetry streams\<close>

text \<open>
  The attributes of the vehicle's records that the ingestors read:
  \<open>Position latitude_deg longitude_deg absolute_altitude_m relative_altitude_m\<close>,
  \<open>VelocityNed north_m_s east_m_s down_m_s\<close>,
  \<open>EulerAngle roll_deg pitch_deg yaw_deg\<close>, \<open>Quaternion w x y z\<close>,
  \<open>Imu acceleration_frd angular_velocity_frd\<close> (each forward, right, down) and
  \<open>ActuatorOutputStatus actuator\<close>.
\<close>

datatype Position = Position pyfloat pyfloat pyfloat pyfloat
datatype VelocityNed = VelocityNed pyfloat pyfloat pyfloat
datatype EulerAngle = EulerAngle pyfloat pyfloat pyfloat
datatype Quaternion = Quaternion pyfloat pyfloat pyfloat pyfloat
datatype Frd = Frd pyfloat pyfloat pyfloat
datatype Imu = Imu Frd Frd
datatype ActuatorOutputStatus = ActuatorOutputStatus "pyfloat list"

subsection \<open>The assignments made for one record\<close>

fun position_write :: "Position \<Rightarrow> FcTelemetryData \<Rightarrow> FcTelemetryData" where
  "position_write (Position lat lon abs_alt rel_alt) d =
     d\<lparr>latitude_deg := lat, longitude_deg := lon,
       altitude_m_amsl := abs_alt, altitude_m_rel := rel_alt\<rparr>"

fun velocity_write :: "VelocityNed \<Rightarrow> FcTelemetryData \<Rightarrow> FcTelemetryData" where
  "velocity_write (VelocityNed north east down) d =
     d\<lparr>velocity_north_mps := north, velocity_east_mps := east, velocity_down_mps := down\<rparr>"

fun attitude_euler_write :: "EulerAngle \<Rightarrow> FcTelemetryData \<Rightarrow> FcTelemetryData" where
  "attitude_euler_write (EulerAngle roll pitch yaw) d =
     d\<lparr>roll_deg := roll, pitch_deg := pitch, yaw_deg := yaw\<rparr>"

fun attitude_quaternion_write :: "Quaternion \<Rightarrow> FcTelemetryData \<Rightarrow> FcTelemetryData" where
  "attitude_quaternion_write (Quaternion w x y z) d =
     d\<lparr>q_w := w, q_x := x, q_y := y, q_z := z\<rparr>"

fun imu_write :: "Imu \<Rightarrow> FcTelemetryData \<Rightarrow> FcTelemetryData" where
  "imu_write (Imu (Frd ax ay az) (Frd gx gy gz)) d =
     d\<lparr>accel_body_x_m_per_s2 := ax, accel_body_y_m_per_s2 := ay,
       accel_body_z_m_per_s2 := az,
       angular_vel_body_x_rad_ps := gx, angular_vel_body_y_rad_ps := gy,
       angular_vel_body_z_rad_ps := gz\<rparr>"

text \<open>
  \<^verbatim>\<open>int(actuator_values[i]) if len(actuator_values) > i else 0\<close>: the expression the
  actuator ingestor evaluates for each of its four slots.
\<close>

definition actuator_slot :: "pyfloat list \<Rightarrow> nat \<Rightarrow> error + int" where
  "actuator_slot actuator_values i =
     (if length actuator_values > i
      then (case py_index actuator_values i of Inl e \<Rightarrow> Inl e | Inr v \<Rightarrow> py_int v)
      else Inr 0)"

text \<open>
  The four assignments run in order; an exception raised by one of them leaves the
  earlier assignments in place and skips the later ones.
\<close>

fun actuator_write :: "ActuatorOutputStatus \<Rightarrow> FcTelemetryData \<Rightarrow> FcTelemetryData \<times> error option" where
  "actuator_write (ActuatorOutputStatus actuator_values) d =
     (case actuator_slot actuator_values 0 of
        Inl e \<Rightarrow> (d, Some e)
      | Inr m \<Rightarrow>
          let d1 = d\<lparr>motor_out := m\<rparr>; servo_start_idx = 8 in
          (case actuator_slot actuator_values servo_start_idx of
             Inl e \<Rightarrow> (d1, Some e)
           | Inr s1 \<Rightarrow>
               let d2 = d1\<lparr>servo1_out := s1\<rparr> in
               (case actuator_slot actuator_values (servo_start_idx + 1) of
                  Inl e \<Rightarrow> (d2, Some e)
                | Inr s2 \<Rightarrow>
                    let d3 = d2\<lparr>servo2_out := s2\<rparr> in
                    (case actuator_slot actuator_values (servo_start_idx + 2) of
                       Inl e \<Rightarrow> (d3, Some e)
                     | Inr s3 \<Rightarrow> (d3\<lparr>servo3_out := s3\<rparr>, None)))))"

text \<open>A record of any of the six streams, and the field group each stream owns.\<close>

datatype msg =
    PositionMsg Position
  | VelocityMsg VelocityNed
  | EulerMsg EulerAngle
  | QuaternionMsg Quaternion
  | ImuMsg Imu
  | ActuatorMsg ActuatorOutputStatus

datatype field_group =
  G_Position | G_Velocity | G_Euler | G_Quaternion | G_Inertial | G_Actuator | G_Meta

fun msg_group :: "msg \<Rightarrow> field_group" where
  "msg_group (PositionMsg r) = G_Position"
| "msg_group (VelocityMsg r) = G_Velocity"
| "msg_group (EulerMsg r) = G_Euler"
| "msg_group (QuaternionMsg r) = G_Quaternion"
| "msg_group (ImuMsg r) = G_Inertial"
| "msg_group (ActuatorMsg r) = G_Actuator"

fun group_of :: "field \<Rightarrow> field_group" where
  "group_of F_timestamp_ms = G_Meta"
| "group_of F_latitude_deg = G_Position"
| "group_of F_longitude_deg = G_Position"
| "group_of F_altitude_m_amsl = G_Position"
| "group_of F_altitude_m_rel = G_Position"
| "group_of F_velocity_north_mps = G_Velocity"
| "group_of F_velocity_east_mps = G_Velocity"
| "group_of F_velocity_down_mps = G_Velocity"
| "group_of F_roll_deg = G_Euler"
| "group_of F_pitch_deg = G_Euler"
| "group_of F_yaw_deg = G_Euler"
| "group_of F_q_w = G_Quaternion"
| "group_of F_q_x = G_Quaternion"
| "group_of F_q_y = G_Quaternion"
| "group_of F_q_z = G_Quaternion"
| "group_of F_accel_body_x_m_per_s2 = G_Inertial"
| "group_of F_accel_body_y_m_per_s2 = G_Inertial"
| "group_of F_accel_body_z_m_per_s2 = G_Inertial"
| "group_of F_angular_vel_body_x_rad_ps = G_Inertial"
| "group_of F_angular_vel_body_y_rad_ps = G_Inertial"
| "group_of F_angular_vel_body_z_rad_ps = G_Inertial"
| "group_of F_motor_out = G_Actuator"
| "group_of F_servo1_out = G_Actuator"
| "group_of F_servo2_out = G_Actuator"
| "group_of F_servo3_out = G_Actuator"

fun write_msg :: "msg \<Rightarrow> FcTelemetryData \<Rightarrow> FcTelemetryData \<times> error option" where
  "write_msg (PositionMsg r) d = (position_write r d, None)"
| "write_msg (VelocityMsg r) d = (velocity_write r d, None)"
| "write_msg (EulerMsg r) d = (attitude_euler_write r d, None)"
| "write_msg (QuaternionMsg r) d = (attitude_quaternion_write r d, None)"
| "write_msg (ImuMsg r) d = (imu_write r d, None)"
| "write_msg (ActuatorMsg r) d = actuator_write r d"

text \<open>
  One iteration of a stream's \<^verbatim>\<open>async for\<close> loop, on the arrival of a record: the loop
  breaks when the collector's flag is off; otherwise the canonical object is updated in
  place, and an exception ends the stream (it is caught and logged outside the loop).
\<close>

datatype ctl = Continue | Break | Raised error

definition stream_iteration :: "FcTelemetryCollector \<Rightarrow> msg \<Rightarrow> heap \<Rightarrow> ctl \<times> heap" where
  "stream_iteration c m h =
     (if \<not> collector_running c then (Break, h)
      else (case write_msg m (h ! current_data c) of
              (d', None) \<Rightarrow> (Continue, h[current_data c := d'])
            | (d', Some e) \<Rightarrow> (Raised e, h[current_data c := d'])))"

text \<open>The canonical snapshot after a sequence of records has been written.\<close>

fun write_all :: "msg list \<Rightarrow> FcTelemetryData \<Rightarrow> FcTelemetryData" where
  "write_all [] d = d"
| "write_all (m # ms) d = write_all ms (fst (write_msg m d))"

section \<open>The recorder: \<^verbatim>\<open>FcTelemetryLogger\<close>\<close>

text \<open>
  What a call can raise, by the class that decides which \<^verbatim>\<open>except\<close> clause catches it:
  an instance of \<^verbatim>\<open>Exception\<close>, a \<^verbatim>\<open>KeyboardInterrupt\<close>, or another \<^verbatim>\<open>BaseException\<close>
  (a task cancellation).
\<close>

datatype raised = Exception | KeyboardInterrupt | OtherBaseException

record FcTelemetryLogger =
  collector :: FcTelemetryCollector
  filename :: string
  logger_running :: bool
  file_handle :: "nat option"

text \<open>
  The world outside the logger: how many times \<^verbatim>\<open>open\<close> has returned a file, how many
  times \<^verbatim>\<open>close\<close> has been called, the text that has reached the file, the text that
  the file object still holds in its buffer, and the messages sent to \<^verbatim>\<open>logging\<close>.
\<close>

record sink_world =
  opened :: nat
  closed :: nat
  written :: string
  pending :: string
  logged :: "string list"

definition log_msg :: "string \<Rightarrow> sink_world \<Rightarrow> sink_world" where
  "log_msg s w = w\<lparr>logged := logged w @ [s]\<rparr>"

definition FcTelemetryLogger_init :: "FcTelemetryCollector \<Rightarrow> string \<Rightarrow> FcTelemetryLogger" where
  "FcTelemetryLogger_init c name =
     \<lparr> collector = c, filename = name, logger_running = False, file_handle = None \<rparr>"

definition stop_logging :: "FcTelemetryLogger \<Rightarrow> sink_world \<Rightarrow> FcTelemetryLogger \<times> sink_world" where
  "stop_logging lg w =
     (lg\<lparr>logger_running := False\<rparr>, log_msg ''Stopping telemetry logging...'' w)"

text \<open>
  The file is opened with \<^verbatim>\<open>buffering=1\<close>: a write of a line puts the text into the
  buffer of the file object and flushes the buffer.  The flush may fail: \<open>Some (e, n)\<close>
  says that \<open>e\<close> is raised after the first \<open>n\<close> characters of the buffer have reached
  the file; the rest of the buffer stays in the file object, and a later flush writes it.
\<close>

definition file_write :: "string \<Rightarrow> (raised \<times> nat) option \<Rightarrow> sink_world \<Rightarrow> raised option \<times> sink_world" where
  "file_write s fault w =
     (let buf = pending w @ s
      in case fault of
           None \<Rightarrow> (None, w\<lparr>written := written w @ buf, pending := []\<rparr>)
         | Some (e, n) \<Rightarrow>
             (Some e, w\<lparr>written := written w @ take n buf, pending := drop n buf\<rparr>))"

text \<open>
  \<^verbatim>\<open>close\<close> flushes the buffer and closes the file.  When the flush fails the file is
  closed all the same, what is left in the buffer is lost, and the exception is raised.
\<close>

definition file_close :: "(raised \<times> nat) option \<Rightarrow> sink_world \<Rightarrow> raised option \<times> sink_world" where
  "file_close fault w =
     (case fault of
        None \<Rightarrow>
          (None, w\<lparr>closed := closed w + 1, written := written w @ pending w, pending := []\<rparr>)
      | Some (e, n) \<Rightarrow>
          (Some e, w\<lparr>closed := closed w + 1, written := written w @ take n (pending w),
                      pending := []\<rparr>))"

text \<open>
  What the rest of the system does during one iteration of the logging loop: the object
  store as the ingestors have left it and the clock at the read, an exception injected
  into the read, into the serialisation of the row, into the write of the row, into the
  sleep of the \<^verbatim>\<open>try\<close> body and into the sleep of the handler, and whether another task
  calls \<^verbatim>\<open>stop_logging\<close> while the iteration is suspended.
\<close>

record tick =
  tick_heap :: heap
  tick_now :: rat
  read_fault :: "raised option"
  row_fault :: "raised option"
  append_fault :: "(raised \<times> nat) option"
  sleep_fault :: "raised option"
  handler_sleep_fault :: "raised option"
  stop_called :: bool

definition newline :: string where
  "newline = [CHR 0x0A]"

text \<open>
  The \<^verbatim>\<open>try\<close> body of one iteration: read a copy, write its row, sleep.  An exception
  of \<^verbatim>\<open>to_csv_row\<close> is an instance of \<^verbatim>\<open>Exception\<close>.
\<close>

definition loop_try :: "(pyval \<Rightarrow> string) \<Rightarrow> FcTelemetryLogger \<Rightarrow> tick \<Rightarrow> sink_world \<Rightarrow> raised option \<times> sink_world" where
  "loop_try str lg t w =
     (case read_fault t of
        Some e \<Rightarrow> (Some e, w)
      | None \<Rightarrow>
          let (a, h) = get_latest_data (collector lg) (tick_now t) (tick_heap t); data = h ! a in
          (case to_csv_row str data of
             Inl err \<Rightarrow> (Some Exception, w)
           | Inr row \<Rightarrow>
               (case row_fault t of
                  Some e \<Rightarrow> (Some e, w)
                | None \<Rightarrow>
                    (case file_write (row @ newline) (append_fault t) w of
                       (Some e, w1) \<Rightarrow> (Some e, w1)
                     | (None, w1) \<Rightarrow> (sleep_fault t, w1)))))"

text \<open>
  One iteration with its \<^verbatim>\<open>except Exception\<close> handler: the handler logs and sleeps; what
  it does not catch, and what its own sleep raises, leaves the loop.
\<close>

definition loop_body :: "(pyval \<Rightarrow> string) \<Rightarrow> FcTelemetryLogger \<Rightarrow> tick \<Rightarrow> sink_world \<Rightarrow> raised option \<times> sink_world" where
  "loop_body str lg t w =
     (case loop_try str lg t w of
        (None, w1) \<Rightarrow> (None, w1)
      | (Some Exception, w1) \<Rightarrow>
          (handler_sleep_fault t, log_msg ''Error logging telemetry data'' w1)
      | (Some e, w1) \<Rightarrow> (Some e, w1))"

definition after_tick :: "tick \<Rightarrow> FcTelemetryLogger \<Rightarrow> sink_world \<Rightarrow> FcTelemetryLogger \<times> sink_world" where
  "after_tick t lg w = (if stop_called t then stop_logging lg w else (lg, w))"

text \<open>
  \<^verbatim>\<open>while self._running\<close>: the loop runs one iteration per tick.  \<open>None\<close> means that the
  ticks are used up while the flag is still on: the loop has not ended.  Otherwise the
  result says whether the loop ended normally or by an exception.
\<close>

fun logging_loop :: "(pyval \<Rightarrow> string) \<Rightarrow> tick list \<Rightarrow> FcTelemetryLogger \<Rightarrow> sink_world \<Rightarrow> (raised option \<times> FcTelemetryLogger \<times> sink_world) option" where
  "logging_loop str [] lg w = (if logger_running lg then None else Some (None, lg, w))"
| "logging_loop str (t # ts) lg w =
     (if \<not> logger_running lg then Some (None, lg, w)
      else (case loop_body str lg t w of
              (Some e, w1) \<Rightarrow> Some (Some e, lg, w1)
            | (None, w1) \<Rightarrow>
                let (lg2, w2) = after_tick t lg w1 in logging_loop str ts lg2 w2))"

datatype outcome = Returned | Propagated raised

text \<open>
  The \<^verbatim>\<open>finally\<close> clause: \<^verbatim>\<open>if self._file_handle: self._file_handle.close()\<close>, then a
  log message.  \<open>out\<close> is how the call would end without the clause; an exception of
  \<^verbatim>\<open>close\<close> leaves the clause and the call instead.
\<close>

definition finally_close :: "outcome \<Rightarrow> FcTelemetryLogger \<Rightarrow> (raised \<times> nat) option \<Rightarrow> sink_world \<Rightarrow> outcome \<times> FcTelemetryLogger \<times> sink_world" where
  "finally_close out lg fault w =
     (case file_handle lg of
        None \<Rightarrow> (out, lg, w)
      | Some fd \<Rightarrow>
          (case file_close fault w of
             (None, w1) \<Rightarrow> (out, lg, log_msg ''Closed log file'' w1)
           | (Some e, w1) \<Rightarrow> (Propagated e, lg, w1)))"

text \<open>
  An exception that reaches the outer \<^verbatim>\<open>try\<close>: \<^verbatim>\<open>except Exception\<close> logs it and the call
  returns; any other exception propagates.  The \<^verbatim>\<open>finally\<close> clause runs in both cases.
\<close>

definition outer_handler :: "raised \<Rightarrow> FcTelemetryLogger \<Rightarrow> (raised \<times> nat) option \<Rightarrow> sink_world \<Rightarrow> outcome \<times> FcTelemetryLogger \<times> sink_world" where
  "outer_handler e lg fault w =
     (case e of
        Exception \<Rightarrow> finally_close Returned lg fault (log_msg ''Failed to open log file'' w)
      | _ \<Rightarrow> finally_close (Propagated e) lg fault w)"

text \<open>
  The environment of one call of \<^verbatim>\<open>start_logging\<close>: what \<^verbatim>\<open>open\<close> raises, how the write
  of the header and \<^verbatim>\<open>close\<close> fail, and the iterations of the loop.
\<close>

record env =
  open_fault :: "raised option"
  header_fault :: "(raised \<times> nat) option"
  close_fault :: "(raised \<times> nat) option"
  ticks :: "tick list"

text \<open>
  \<^verbatim>\<open>start_logging\<close>.  \<^verbatim>\<open>open(self._filename, "w", buffering=1)\<close> gives a new file object
  on an empty file.
\<close>

definition start_logging :: "(pyval \<Rightarrow> string) \<Rightarrow> env \<Rightarrow> FcTelemetryLogger \<Rightarrow> sink_world \<Rightarrow> (outcome \<times> FcTelemetryLogger \<times> sink_world) option" where
  "start_logging str ev lg w =
     (let lg1 = lg\<lparr>logger_running := True\<rparr>;
          w1 = log_msg ''Starting telemetry logging'' w
      in case open_fault ev of
           Some e \<Rightarrow> Some (outer_handler e lg1 (close_fault ev) w1)
         | None \<Rightarrow>
             let lg2 = lg1\<lparr>file_handle := Some (opened w1)\<rparr>;
                 w2 = w1\<lparr>opened := opened w1 + 1, written := [], pending := []\<rparr>
             in (case file_write (csv_header @ newline) (header_fault ev) w2 of
                   (Some e, w3) \<Rightarrow> Some (outer_handler e lg2 (close_fault ev) w3)
                 | (None, w3) \<Rightarrow>
                     (case logging_loop str (ticks ev) lg2 w3 of
                        None \<Rightarrow> None
                      | Some (None, lg3, w4) \<Rightarrow>
                          Some (finally_close Returned lg3 (close_fault ev) w4)
                      | Some (Some e, lg3, w4) \<Rightarrow>
                          Some (outer_handler e lg3 (close_fault ev) w4))))"

section \<open>The printer: \<^verbatim>\<open>print_telemetry_data\<close>\<close>






section \<open>The header and the rows of the log file\<close>

lemma digit_char_set: "digit_char d \<in> set ''0123456789''"
  unfolding digit_char_def by (rule nth_mem) simp

lemma digits_set: "set (digits n) \<subseteq> set ''0123456789''"
proof (induction n rule: digits.induct)
  case (1 n)
  show ?case
  proof (cases "n < 10")
    case True
    then show ?thesis using digit_char_set [of n] by (subst digits.simps) simp
  next
    case False
    then show ?thesis using 1 digit_char_set [of "n mod 10"] by (subst digits.simps) simp
  qed
qed

lemma digits_no_comma: "CHR '','' \<notin> set (digits n)"
  using digits_set [of n] by auto

lemma zero_pad_no_comma: "CHR '','' \<notin> set s \<Longrightarrow> CHR '','' \<notin> set (zero_pad k s)"
  by (simp add: zero_pad_def)

lemma format_decimal_no_comma: "CHR '','' \<notin> set (format_decimal i)"
  by (simp add: format_decimal_def digits_no_comma)

lemma format_fixed_no_comma: "CHR '','' \<notin> set (format_fixed k x)"
  by (cases x) (simp_all add: Let_def digits_no_comma zero_pad_no_comma)

lemma format_field_ok:
  "\<exists>v. format_field str d f = Inr v \<and> CHR '','' \<notin> set v"
  by (cases f) (simp_all add: format_field_def format_fixed_no_comma format_decimal_no_comma)

lemma csv_values_ok:
  "\<exists>vs. csv_values str d fs = Inr vs \<and> map Inr vs = map (format_field str d) fs
        \<and> (\<forall>v \<in> set vs. CHR '','' \<notin> set v)"
proof (induction fs)
  case Nil
  show ?case by simp
next
  case (Cons f fs)
  obtain v where v: "format_field str d f = Inr v" "CHR '','' \<notin> set v"
    using format_field_ok by blast
  obtain vs where vs: "csv_values str d fs = Inr vs"
      "map Inr vs = map (format_field str d) fs" "\<forall>v \<in> set vs. CHR '','' \<notin> set v"
    using Cons.IH by blast
  show ?case using v vs by simp
qed

lemma py_split_no_sep: "c \<notin> set x \<Longrightarrow> py_split c x = [x]"
  by (induction x) auto

lemma py_split_append: "c \<notin> set x \<Longrightarrow> py_split c (x @ c # r) = x # py_split c r"
  by (induction x) auto

lemma py_split_join:
  "xs \<noteq> [] \<Longrightarrow> \<forall>x \<in> set xs. c \<notin> set x \<Longrightarrow> py_split c (py_join [c] xs) = xs"
proof (induction xs rule: induct_list012)
  case 1
  then show ?case by simp
next
  case (2 x)
  then show ?case by (simp add: py_split_no_sep)
next
  case (3 x y ys)
  then show ?case by (simp add: py_split_append)
qed

lemma field_name_no_comma: "CHR '','' \<notin> set (field_name f)"
  by (cases f) simp_all

lemma header_split: "py_split CHR '','' csv_header = map field_name dataclass_fields"
  unfolding csv_header_def
  by (rule py_split_join) (auto simp: dataclass_fields_def field_name_no_comma)

text \<open>
  C5 (as amended).  The header row is the comma-joined field names in declaration order.
  It has 25 names: the timestamp first, then 24 data fields (the claim counts 22 data
  fields and 23 names).
\<close>

theorem csv_header_names:
  "csv_header = py_join '','' (map field_name dataclass_fields)
   \<and> py_split CHR '','' csv_header =
       [''timestamp_ms'',
        ''latitude_deg'', ''longitude_deg'', ''altitude_m_amsl'', ''altitude_m_rel'',
        ''velocity_north_mps'', ''velocity_east_mps'', ''velocity_down_mps'',
        ''roll_deg'', ''pitch_deg'', ''yaw_deg'',
        ''q_w'', ''q_x'', ''q_y'', ''q_z'',
        ''accel_body_x_m_per_s2'', ''accel_body_y_m_per_s2'', ''accel_body_z_m_per_s2'',
        ''angular_vel_body_x_rad_ps'', ''angular_vel_body_y_rad_ps'',
        ''angular_vel_body_z_rad_ps'',
        ''motor_out'', ''servo1_out'', ''servo2_out'', ''servo3_out'']
   \<and> length (py_split CHR '','' csv_header) = 25
   \<and> hd dataclass_fields = F_timestamp_ms
   \<and> F_timestamp_ms \<notin> set (tl dataclass_fields)
   \<and> length (tl dataclass_fields) = 24"
  by (simp add: header_split) (simp add: csv_header_def dataclass_fields_def)

theorem csv_header_not_23_names:
  "length (py_split CHR '','' csv_header) \<noteq> 23 \<and> length (tl dataclass_fields) \<noteq> 22"
  by (simp add: header_split) (simp add: dataclass_fields_def)

lemma csv_values_explicit:
  "csv_values str d dataclass_fields = Inr
       [format_fixed 3 (timestamp_ms d),
        format_fixed 8 (latitude_deg d), format_fixed 8 (longitude_deg d),
        format_fixed 2 (altitude_m_amsl d), format_fixed 2 (altitude_m_rel d),
        format_fixed 3 (velocity_north_mps d), format_fixed 3 (velocity_east_mps d),
        format_fixed 3 (velocity_down_mps d),
        format_fixed 2 (roll_deg d), format_fixed 2 (pitch_deg d), format_fixed 2 (yaw_deg d),
        format_fixed 4 (q_w d), format_fixed 4 (q_x d), format_fixed 4 (q_y d),
        format_fixed 4 (q_z d),
        format_fixed 3 (accel_body_x_m_per_s2 d), format_fixed 3 (accel_body_y_m_per_s2 d),
        format_fixed 3 (accel_body_z_m_per_s2 d),
        format_fixed 4 (angular_vel_body_x_rad_ps d), format_fixed 4 (angular_vel_body_y_rad_ps d),
        format_fixed 4 (angular_vel_body_z_rad_ps d),
        format_decimal (motor_out d), format_decimal (servo1_out d),
        format_decimal (servo2_out d), format_decimal (servo3_out d)]"
  by (simp add: dataclass_fields_def format_field_def)

text \<open>
  C6.  For every snapshot, \<^verbatim>\<open>to_csv_row\<close> returns a row (it raises nothing).  The
  comma-delimited values of the row are, in this order, the timestamp with 3 decimals,
  latitude and longitude with 8, the two altitudes with 2, the three velocities with 3,
  roll, pitch and yaw with 2, the quaternion with 4, the three accelerations with 3, the
  three angular rates with 4, and the motor and servo outputs as integers.  The
  comma-delimited names of the header are the names of these fields in the same order,
  and the two counts are equal.
\<close>

theorem to_csv_row_matches_header:
  "\<exists>row. to_csv_row str d = Inr row
     \<and> py_split CHR '','' row =
       [format_fixed 3 (timestamp_ms d),
        format_fixed 8 (latitude_deg d), format_fixed 8 (longitude_deg d),
        format_fixed 2 (altitude_m_amsl d), format_fixed 2 (altitude_m_rel d),
        format_fixed 3 (velocity_north_mps d), format_fixed 3 (velocity_east_mps d),
        format_fixed 3 (velocity_down_mps d),
        format_fixed 2 (roll_deg d), format_fixed 2 (pitch_deg d), format_fixed 2 (yaw_deg d),
        format_fixed 4 (q_w d), format_fixed 4 (q_x d), format_fixed 4 (q_y d),
        format_fixed 4 (q_z d),
        format_fixed 3 (accel_body_x_m_per_s2 d), format_fixed 3 (accel_body_y_m_per_s2 d),
        format_fixed 3 (accel_body_z_m_per_s2 d),
        format_fixed 4 (angular_vel_body_x_rad_ps d), format_fixed 4 (angular_vel_body_y_rad_ps d),
        format_fixed 4 (angular_vel_body_z_rad_ps d),
        format_decimal (motor_out d), format_decimal (servo1_out d),
        format_decimal (servo2_out d), format_decimal (servo3_out d)]
     \<and> py_split CHR '','' csv_header =
       [''timestamp_ms'',
        ''latitude_deg'', ''longitude_deg'', ''altitude_m_amsl'', ''altitude_m_rel'',
        ''velocity_north_mps'', ''velocity_east_mps'', ''velocity_down_mps'',
        ''roll_deg'', ''pitch_deg'', ''yaw_deg'',
        ''q_w'', ''q_x'', ''q_y'', ''q_z'',
        ''accel_body_x_m_per_s2'', ''accel_body_y_m_per_s2'', ''accel_body_z_m_per_s2'',
        ''angular_vel_body_x_rad_ps'', ''angular_vel_body_y_rad_ps'',
        ''angular_vel_body_z_rad_ps'',
        ''motor_out'', ''servo1_out'', ''servo2_out'', ''servo3_out'']
     \<and> length (py_split CHR '','' row) = length (py_split CHR '','' csv_header)"
proof -
  let ?vs = "[format_fixed 3 (timestamp_ms d),
        format_fixed 8 (latitude_deg d), format_fixed 8 (longitude_deg d),
        format_fixed 2 (altitude_m_amsl d), format_fixed 2 (altitude_m_rel d),
        format_fixed 3 (velocity_north_mps d), format_fixed 3 (velocity_east_mps d),
        format_fixed 3 (velocity_down_mps d),
        format_fixed 2 (roll_deg d), format_fixed 2 (pitch_deg d), format_fixed 2 (yaw_deg d),
        format_fixed 4 (q_w d), format_fixed 4 (q_x d), format_fixed 4 (q_y d),
        format_fixed 4 (q_z d),
        format_fixed 3 (accel_body_x_m_per_s2 d), format_fixed 3 (accel_body_y_m_per_s2 d),
        format_fixed 3 (accel_body_z_m_per_s2 d),
        format_fixed 4 (angular_vel_body_x_rad_ps d), format_fixed 4 (angular_vel_body_y_rad_ps d),
        format_fixed 4 (angular_vel_body_z_rad_ps d),
        format_decimal (motor_out d), format_decimal (servo1_out d),
        format_decimal (servo2_out d), format_decimal (servo3_out d)]"
  have row: "to_csv_row str d = Inr (py_join '','' ?vs)"
    by (simp only: to_csv_row_def csv_values_explicit sum.case)
  have "\<forall>v \<in> set ?vs. CHR '','' \<notin> set v"
    by (simp add: format_fixed_no_comma format_decimal_no_comma)
  then have sp: "py_split CHR '','' (py_join '','' ?vs) = ?vs"
    by (intro py_split_join) simp_all
  have hd: "py_split CHR '','' csv_header = map field_name dataclass_fields"
    by (rule header_split)
  show ?thesis
    apply (rule exI [of _ "py_join '','' ?vs"])
    apply (simp only: sp row hd)
    apply (simp add: dataclass_fields_def)
    done
qed

section \<open>Reads of the canonical snapshot\<close>

lemma init_defaults:
  "group_of f \<noteq> G_Meta \<Longrightarrow> getattr (FcTelemetryData_init t) f =
     (if f = F_q_w then PyFloat (Finite 1)
      else if group_of f = G_Actuator then PyInt 0 else PyFloat (Finite 0))"
  by (cases f) (simp_all add: FcTelemetryData_init_def)

lemma getattr_replace_timestamp:
  "f \<noteq> F_timestamp_ms \<Longrightarrow> getattr (replace_timestamp_ms d t) f = getattr d f"
  by (cases f) (simp_all add: replace_timestamp_ms_def)

lemma group_meta: "group_of f = G_Meta \<longleftrightarrow> f = F_timestamp_ms"
  by (cases f) simp_all

lemma timestamp_replace: "timestamp_ms (replace_timestamp_ms d t) = t"
  by (simp add: replace_timestamp_ms_def)

text \<open>
  C1.  When the canonical snapshot exists, \<^verbatim>\<open>get_latest_data\<close> returns a new object whose
  fields all equal those of the canonical snapshot except \<open>timestamp_ms\<close>, which is the
  clock of the read times 1000.  The read changes no existing object; any mutation of the
  returned copy changes no other object, so neither the canonical snapshot nor a copy
  returned earlier; and the same holds for the copy of a later read.
\<close>

theorem get_latest_data_copy_independent:
  assumes "current_data c < length h"
  shows "(let (a, h') = get_latest_data c now h in
           (\<forall>f. f \<noteq> F_timestamp_ms \<longrightarrow> getattr (h' ! a) f = getattr (h ! current_data c) f)
         \<and> timestamp_ms (h' ! a) = Finite (now * 1000)
         \<and> a = length h \<and> a \<noteq> current_data c \<and> length h' = Suc (length h)
         \<and> (\<forall>b < length h. h' ! b = h ! b)
         \<and> (\<forall>g b. b \<noteq> a \<longrightarrow> mutate a g h' ! b = h' ! b)
         \<and> (\<forall>g. mutate a g h' ! current_data c = h ! current_data c)
         \<and> (\<forall>g now2. let (a2, h2) = get_latest_data c now2 h' in
               a2 \<noteq> a \<and> mutate a2 g h2 ! a = h' ! a
               \<and> mutate a2 g h2 ! current_data c = h ! current_data c))"
  using assms
  by (simp add: get_latest_data_def mutate_def nth_append getattr_replace_timestamp
      timestamp_replace)

theorem get_latest_data_copy_independent_witness:
  "current_data \<lparr>current_data = 0, collector_running = True\<rparr> < length [FcTelemetryData_init (Finite 5)]
  \<and> get_latest_data \<lparr>current_data = 0, collector_running = True\<rparr> 7 [FcTelemetryData_init (Finite 5)]
      = (1, [FcTelemetryData_init (Finite 5), FcTelemetryData_init (Finite 7000)])
  \<and> mutate 1 (\<lambda>d. d\<lparr>q_w := Finite 9\<rparr>) [FcTelemetryData_init (Finite 5), FcTelemetryData_init (Finite 7000)] ! 0
      = FcTelemetryData_init (Finite 5)"
  using get_latest_data_copy_independent [of "\<lparr>current_data = 0, collector_running = True\<rparr>" "[FcTelemetryData_init (Finite 5)]" 7]
  by (simp add: get_latest_data_def replace_timestamp_ms_def FcTelemetryData_init_def)

text \<open>
  C10.  The snapshot created by the collector's constructor has \<open>timestamp_ms\<close> equal to
  the clock value \<^verbatim>\<open>time.time()\<close> (seconds), and the copy returned by
  \<^verbatim>\<open>get_latest_data\<close> has \<open>timestamp_ms\<close> equal to the clock value times 1000: at the
  same clock value \<open>t\<close> the first is \<open>t\<close> and the second \<open>t * 1000\<close>.
\<close>

theorem timestamp_scales:
  "timestamp_ms (snd (FcTelemetryCollector_init t h)
       ! current_data (fst (FcTelemetryCollector_init t h))) = Finite t
   \<and> timestamp_ms (snd (get_latest_data c t h') ! fst (get_latest_data c t h'))
       = Finite (t * 1000)"
  by (simp add: FcTelemetryCollector_init_def get_latest_data_def FcTelemetryData_init_def
      replace_timestamp_ms_def)

section \<open>The writes of the six ingestors\<close>

lemma write_msg_other_group:
  assumes "group_of f \<noteq> msg_group m"
  shows "getattr (fst (write_msg m d)) f = getattr d f"
proof (cases m)
  case (PositionMsg r)
  then show ?thesis using assms by (cases r; cases f) simp_all
next
  case (VelocityMsg r)
  then show ?thesis using assms by (cases r; cases f) simp_all
next
  case (EulerMsg r)
  then show ?thesis using assms by (cases r; cases f) simp_all
next
  case (QuaternionMsg r)
  then show ?thesis using assms by (cases r; cases f) simp_all
next
  case (ImuMsg r)
  then show ?thesis
  proof (cases r)
    case (Imu a g)
    then show ?thesis using ImuMsg assms by (cases a; cases g; cases f) simp_all
  qed
next
  case (ActuatorMsg r)
  then show ?thesis using assms
    by (cases r; cases f) (simp_all add: Let_def split: sum.splits)
qed

lemma write_all_other_group:
  "\<forall>m \<in> set ms. msg_group m \<noteq> group_of f \<Longrightarrow> getattr (write_all ms d) f = getattr d f"
proof (induction ms arbitrary: d)
  case Nil
  show ?case by simp
next
  case (Cons m ms)
  then have "getattr (write_all ms (fst (write_msg m d))) f = getattr (fst (write_msg m d)) f"
    by simp
  also have "\<dots> = getattr d f"
    using Cons.prems write_msg_other_group [of f m d] by auto
  finally show ?case by simp
qed

lemma stream_iteration_heap:
  "snd (stream_iteration c m h) =
     (if collector_running c then h[current_data c := fst (write_msg m (h ! current_data c))] else h)"
  by (simp add: stream_iteration_def split: prod.splits option.splits)

text \<open>
  C2.  For every record of any of the six streams and every field that belongs to another
  group than the stream's own (the timestamp is in the group \<open>G_Meta\<close>, which no stream
  owns), the stream's writes leave the field as it was: in the assignments themselves, also
  when an exception cuts them short, and in the canonical object after one iteration of the
  stream's loop.
\<close>

theorem ingestor_writes_own_group_only:
  assumes "group_of f \<noteq> msg_group m"
  shows "getattr (fst (write_msg m d)) f = getattr d f
       \<and> (current_data c < length h \<longrightarrow>
            getattr (snd (stream_iteration c m h) ! current_data c) f
              = getattr (h ! current_data c) f)"
  using assms by (simp add: stream_iteration_heap write_msg_other_group)

theorem ingestor_writes_own_group_only_witness:
  "group_of F_q_w \<noteq> msg_group (PositionMsg (Position (Finite 32) (Finite 35) (Finite 100) (Finite 20)))
   \<and> getattr (fst (write_msg (PositionMsg (Position (Finite 32) (Finite 35) (Finite 100) (Finite 20)))
        (FcTelemetryData_init (Finite 0)))) F_q_w = PyFloat (Finite 1)"
  using ingestor_writes_own_group_only [of F_q_w "PositionMsg (Position (Finite 32) (Finite 35) (Finite 100) (Finite 20))"
     "FcTelemetryData_init (Finite 0)"]
  by (simp add: FcTelemetryData_init_def)

text \<open>
  C7.  A collector is constructed, records of streams other than the owner of field \<open>f\<close>
  are written in any number and order, and the snapshot is read: the copy holds the
  declared default of \<open>f\<close>, which is 1 for \<open>q_w\<close>, the integer 0 for the actuator
  fields and 0.0 for every other data field.
\<close>

theorem defaults_before_first_write:
  assumes "group_of f \<noteq> G_Meta" and "\<forall>m \<in> set ms. msg_group m \<noteq> group_of f"
  shows "(let (c, h0) = FcTelemetryCollector_init t0 h;
              h1 = mutate (current_data c) (write_all ms) h0;
              (a, h2) = get_latest_data c now h1
          in getattr (h2 ! a) f) =
         (if f = F_q_w then PyFloat (Finite 1)
          else if group_of f = G_Actuator then PyInt 0 else PyFloat (Finite 0))"
proof -
  have ts: "f \<noteq> F_timestamp_ms" using assms(1) by (simp add: group_meta)
  have "getattr (replace_timestamp_ms (write_all ms (FcTelemetryData_init (Finite t0)))
           (Finite (now * 1000))) f = getattr (FcTelemetryData_init (Finite t0)) f"
    using ts assms(2) by (simp add: getattr_replace_timestamp write_all_other_group)
  then show ?thesis
    using assms(1)
    by (simp add: FcTelemetryCollector_init_def mutate_def get_latest_data_def init_defaults)
qed

theorem defaults_before_first_write_witness:
  "(let (c, h0) = FcTelemetryCollector_init 3 [];
              h1 = mutate (current_data c) (write_all [PositionMsg (Position (Finite 32) (Finite 35) (Finite 100) (Finite 20)),
                  ActuatorMsg (ActuatorOutputStatus [Finite 1500])]) h0;
              (a, h2) = get_latest_data c 4 h1
          in getattr (h2 ! a) F_q_w) = PyFloat (Finite 1)"
  using defaults_before_first_write [of F_q_w "[PositionMsg (Position (Finite 32) (Finite 35) (Finite 100) (Finite 20)),
                  ActuatorMsg (ActuatorOutputStatus [Finite 1500])]" 3 "[]" 4]
  by simp

section \<open>The actuator ingestor\<close>

lemma actuator_slot_no_index_error: "actuator_slot vs i \<noteq> Inl IndexError"
  by (cases "vs ! i") (simp_all add: actuator_slot_def py_index_def)

lemma actuator_slot_finite:
  "i < length vs \<longrightarrow> is_finite (vs ! i) \<Longrightarrow>
     \<exists>v. actuator_slot vs i = Inr v \<and> (if i < length vs then py_int (vs ! i) = Inr v else v = 0)"
  by (cases "vs ! i") (simp_all add: actuator_slot_def py_index_def)

lemma actuator_write_no_index_error:
  "snd (actuator_write (ActuatorOutputStatus vs) d) \<noteq> Some IndexError"
  using actuator_slot_no_index_error [of vs 0] actuator_slot_no_index_error [of vs 8]
    actuator_slot_no_index_error [of vs 9] actuator_slot_no_index_error [of vs 10]
  by (auto simp: Let_def split: sum.splits)

text \<open>
  C8 (as amended).  For an actuator array of any length the actuator ingestor never raises
  an index error.  When the values at those of the indices 0, 8, 9 and 10 that are within
  the array are finite, it writes \<^verbatim>\<open>int\<close> of the value at index 0 to \<open>motor_out\<close> and of
  the values at indices 8, 9 and 10 to the three servo fields, and 0 to each of these four
  fields whose index is beyond the length of the array.
\<close>

theorem actuator_write_finite_slots:
  "snd (actuator_write (ActuatorOutputStatus vs) d) \<noteq> Some IndexError
   \<and> ((\<forall>i \<in> {0, 8, 9, 10}. i < length vs \<longrightarrow> is_finite (vs ! i)) \<longrightarrow>
        (\<exists>m s1 s2 s3.
           actuator_write (ActuatorOutputStatus vs) d
             = (d\<lparr>motor_out := m, servo1_out := s1, servo2_out := s2, servo3_out := s3\<rparr>, None)
           \<and> (if 0 < length vs then py_int (vs ! 0) = Inr m else m = 0)
           \<and> (if 8 < length vs then py_int (vs ! 8) = Inr s1 else s1 = 0)
           \<and> (if 9 < length vs then py_int (vs ! 9) = Inr s2 else s2 = 0)
           \<and> (if 10 < length vs then py_int (vs ! 10) = Inr s3 else s3 = 0)))"
proof (intro conjI impI)
  show "snd (actuator_write (ActuatorOutputStatus vs) d) \<noteq> Some IndexError"
    by (rule actuator_write_no_index_error)
next
  assume fin: "\<forall>i \<in> {0, 8, 9, 10}. i < length vs \<longrightarrow> is_finite (vs ! i)"
  obtain m where m: "actuator_slot vs 0 = Inr m"
      "if 0 < length vs then py_int (vs ! 0) = Inr m else m = 0"
    using actuator_slot_finite [of 0 vs] fin by auto
  obtain s1 where s1: "actuator_slot vs 8 = Inr s1"
      "if 8 < length vs then py_int (vs ! 8) = Inr s1 else s1 = 0"
    using actuator_slot_finite [of 8 vs] fin by auto
  obtain s2 where s2: "actuator_slot vs 9 = Inr s2"
      "if 9 < length vs then py_int (vs ! 9) = Inr s2 else s2 = 0"
    using actuator_slot_finite [of 9 vs] fin by auto
  obtain s3 where s3: "actuator_slot vs 10 = Inr s3"
      "if 10 < length vs then py_int (vs ! 10) = Inr s3 else s3 = 0"
    using actuator_slot_finite [of 10 vs] fin by auto
  have "actuator_write (ActuatorOutputStatus vs) d
          = (d\<lparr>motor_out := m, servo1_out := s1, servo2_out := s2, servo3_out := s3\<rparr>, None)"
    using m(1) s1(1) s2(1) s3(1) by (simp add: Let_def)
  then show "\<exists>m s1 s2 s3.
           actuator_write (ActuatorOutputStatus vs) d
             = (d\<lparr>motor_out := m, servo1_out := s1, servo2_out := s2, servo3_out := s3\<rparr>, None)
           \<and> (if 0 < length vs then py_int (vs ! 0) = Inr m else m = 0)
           \<and> (if 8 < length vs then py_int (vs ! 8) = Inr s1 else s1 = 0)
           \<and> (if 9 < length vs then py_int (vs ! 9) = Inr s2 else s2 = 0)
           \<and> (if 10 < length vs then py_int (vs ! 10) = Inr s3 else s3 = 0)"
    using m(2) s1(2) s2(2) s3(2) by blast
qed

theorem actuator_write_finite_slots_witness:
  "actuator_write (ActuatorOutputStatus [Finite (15007 / 10), Finite 0, Finite 0, Finite 0, Finite 0,
        Finite 0, Finite 0, Finite 0, Finite 1400, Finite (-3 / 2)])
        ((FcTelemetryData_init (Finite 0))\<lparr>servo3_out := 7\<rparr>)
     = ((FcTelemetryData_init (Finite 0))\<lparr>motor_out := 1500, servo1_out := 1400,
           servo2_out := -1, servo3_out := 0\<rparr>, None)"
  using actuator_write_finite_slots [of "[Finite (15007 / 10), Finite 0, Finite 0, Finite 0, Finite 0,
        Finite 0, Finite 0, Finite 0, Finite 1400, Finite (-3 / 2)]"
        "(FcTelemetryData_init (Finite 0))\<lparr>servo3_out := 7\<rparr>"]
  by (simp add: truncate_rat_def actuator_slot_def py_index_def FcTelemetryData_init_def)
    (simp add: floor_eq_iff ceiling_eq_iff)

text \<open>
  The claim as stated fails on a NaN: \<^verbatim>\<open>int\<close> raises \<^verbatim>\<open>ValueError\<close>, the motor field is
  not written, and the servo fields, whose indices are beyond the array, keep their old
  values instead of becoming 0.
\<close>

theorem actuator_write_nan_counterexample:
  "actuator_write (ActuatorOutputStatus [NaN])
     ((FcTelemetryData_init (Finite 0))\<lparr>motor_out := 1100, servo1_out := 1500\<rparr>)
   = ((FcTelemetryData_init (Finite 0))\<lparr>motor_out := 1100, servo1_out := 1500\<rparr>, Some ValueError)"
  by (simp add: actuator_slot_def py_index_def)

section \<open>The recorder's file and its loop\<close>

lemma log_msg_counts [simp]:
  "opened (log_msg s w) = opened w" "closed (log_msg s w) = closed w"
  "written (log_msg s w) = written w" "pending (log_msg s w) = pending w"
  by (simp_all add: log_msg_def)

lemma file_write_counts:
  "opened (snd (file_write s fault w)) = opened w \<and> closed (snd (file_write s fault w)) = closed w"
  by (cases fault) (auto simp: file_write_def Let_def)

lemma loop_try_counts:
  "opened (snd (loop_try str lg t w)) = opened w \<and> closed (snd (loop_try str lg t w)) = closed w"
proof (cases "read_fault t")
  case (Some e)
  then show ?thesis by (simp add: loop_try_def)
next
  case None
  let ?d = "snd (get_latest_data (collector lg) (tick_now t) (tick_heap t))
              ! fst (get_latest_data (collector lg) (tick_now t) (tick_heap t))"
  show ?thesis
  proof (cases "to_csv_row str ?d")
    case (Inl err)
    then show ?thesis using None by (simp add: loop_try_def case_prod_beta)
  next
    case (Inr row)
    show ?thesis
    proof (cases "row_fault t")
      case (Some e)
      then show ?thesis using None Inr by (simp add: loop_try_def case_prod_beta)
    next
      case rNone: None
      obtain r w1 where fw: "file_write (row @ newline) (append_fault t) w = (r, w1)"
        by (cases "file_write (row @ newline) (append_fault t) w")
      have "opened w1 = opened w \<and> closed w1 = closed w"
        using file_write_counts [of "row @ newline" "append_fault t" w] fw by simp
      then show ?thesis
        using None Inr rNone fw by (cases r) (simp_all add: loop_try_def case_prod_beta)
    qed
  qed
qed

lemma loop_body_counts:
  "opened (snd (loop_body str lg t w)) = opened w \<and> closed (snd (loop_body str lg t w)) = closed w"
  using loop_try_counts [of str lg t w]
  by (auto simp: loop_body_def split: prod.splits option.splits raised.splits)

lemma after_tick_counts:
  "opened (snd (after_tick t lg w)) = opened w \<and> closed (snd (after_tick t lg w)) = closed w
   \<and> file_handle (fst (after_tick t lg w)) = file_handle lg"
  by (simp add: after_tick_def stop_logging_def)

lemma logging_loop_counts:
  "logging_loop str ts lg w = Some (e, lg', w') \<Longrightarrow>
     opened w' = opened w \<and> closed w' = closed w \<and> file_handle lg' = file_handle lg"
proof (induction ts arbitrary: lg w)
  case Nil
  then show ?case by (simp split: if_splits)
next
  case (Cons t ts)
  show ?case
  proof (cases "logger_running lg")
    case False
    then show ?thesis using Cons.prems by simp
  next
    case True
    obtain r w1 where body: "loop_body str lg t w = (r, w1)" by (cases "loop_body str lg t w")
    have c1: "opened w1 = opened w \<and> closed w1 = closed w"
      using loop_body_counts [of str lg t w] body by simp
    show ?thesis
    proof (cases r)
      case (Some x)
      then show ?thesis using Cons.prems True body c1 by simp
    next
      case None
      obtain lg2 w2 where at: "after_tick t lg w1 = (lg2, w2)" by (cases "after_tick t lg w1")
      have c2: "opened w2 = opened w1 \<and> closed w2 = closed w1 \<and> file_handle lg2 = file_handle lg"
        using after_tick_counts [of t lg w1] at by simp
      have "logging_loop str ts lg2 w2 = Some (e, lg', w')"
        using Cons.prems True body None at by simp
      from Cons.IH [OF this] show ?thesis using c1 c2 by simp
    qed
  qed
qed

lemma file_close_counts:
  "opened (snd (file_close fault w)) = opened w \<and> closed (snd (file_close fault w)) = closed w + 1"
  by (cases fault) (auto simp: file_close_def)

lemma finally_close_counts:
  assumes "finally_close out0 lg fault w = (out, lg', w')"
  shows "opened w' = opened w
     \<and> closed w' = (if file_handle lg = None then closed w else closed w + 1)"
proof (cases "file_handle lg")
  case None
  then show ?thesis using assms by (simp add: finally_close_def)
next
  case (Some fd)
  obtain r w1 where fc: "file_close fault w = (r, w1)" by (cases "file_close fault w")
  have "opened w1 = opened w \<and> closed w1 = closed w + 1"
    using file_close_counts [of fault w] fc by simp
  then show ?thesis
    using assms Some fc by (cases r) (auto simp: finally_close_def)
qed

lemma outer_handler_counts:
  assumes "outer_handler e lg fault w = (out, lg', w')"
  shows "opened w' = opened w
     \<and> closed w' = (if file_handle lg = None then closed w else closed w + 1)"
proof (cases e)
  case Exception
  then have "finally_close Returned lg fault (log_msg ''Failed to open log file'' w) = (out, lg', w')"
    using assms by (simp add: outer_handler_def)
  from finally_close_counts [OF this] show ?thesis by simp
next
  case KeyboardInterrupt
  then have "finally_close (Propagated e) lg fault w = (out, lg', w')"
    using assms by (simp add: outer_handler_def)
  from finally_close_counts [OF this] show ?thesis by simp
next
  case OtherBaseException
  then have "finally_close (Propagated e) lg fault w = (out, lg', w')"
    using assms by (simp add: outer_handler_def)
  from finally_close_counts [OF this] show ?thesis by simp
qed

lemma to_csv_row_returns: "\<exists>row. to_csv_row str d = Inr row"
  using csv_values_ok [of str d dataclass_fields] by (auto simp: to_csv_row_def)

lemma start_logging_counts:
  assumes "start_logging str ev (FcTelemetryLogger_init c name) w = Some (out, lg', w')"
  shows "(open_fault ev \<noteq> None \<and> opened w' = opened w \<and> closed w' = closed w)
       \<or> (open_fault ev = None \<and> opened w' = opened w + 1 \<and> closed w' = closed w + 1)"
proof (cases "open_fault ev")
  case (Some e)
  then have "outer_handler e ((FcTelemetryLogger_init c name)\<lparr>logger_running := True\<rparr>)
               (close_fault ev) (log_msg ''Starting telemetry logging'' w) = (out, lg', w')"
    using assms by (simp add: start_logging_def Let_def)
  from outer_handler_counts [OF this] show ?thesis
    using Some by (simp add: FcTelemetryLogger_init_def)
next
  case None
  let ?lg2 = "(FcTelemetryLogger_init c name)\<lparr>logger_running := True, file_handle := Some (opened w)\<rparr>"
  let ?w2 = "(log_msg ''Starting telemetry logging'' w)
               \<lparr>opened := opened w + 1, written := [], pending := []\<rparr>"
  obtain hr w3 where hw: "file_write (csv_header @ newline) (header_fault ev) ?w2 = (hr, w3)"
    by (cases "file_write (csv_header @ newline) (header_fault ev) ?w2")
  have c3: "opened w3 = opened w + 1" "closed w3 = closed w"
    using file_write_counts [of "csv_header @ newline" "header_fault ev" ?w2] hw by simp_all
  show ?thesis
  proof (cases hr)
    case (Some e)
    then have "outer_handler e ?lg2 (close_fault ev) w3 = (out, lg', w')"
      using assms None hw by (simp add: start_logging_def Let_def)
    from outer_handler_counts [OF this] show ?thesis using None c3 by simp
  next
    case hNone: None
    obtain r lg3 w4 where loop: "logging_loop str (ticks ev) ?lg2 w3 = Some (r, lg3, w4)"
      using assms None hNone hw
      by (cases "logging_loop str (ticks ev) ?lg2 w3") (auto simp: start_logging_def Let_def)
    from logging_loop_counts [OF loop]
    have c: "opened w4 = opened w + 1" "closed w4 = closed w" "file_handle lg3 = Some (opened w)"
      using c3 by simp_all
    show ?thesis
    proof (cases r)
      case rNone: None
      then have "finally_close Returned lg3 (close_fault ev) w4 = (out, lg', w')"
        using assms None hNone hw loop by (simp add: start_logging_def Let_def)
      from finally_close_counts [OF this] show ?thesis using c None by simp
    next
      case (Some e)
      then have "outer_handler e lg3 (close_fault ev) w4 = (out, lg', w')"
        using assms None hNone hw loop by (simp add: start_logging_def Let_def)
      from outer_handler_counts [OF this] show ?thesis using c None by simp
    qed
  qed
qed

lemma logging_loop_unfinished:
  "logging_loop str ts lg w = None \<Longrightarrow> logger_running lg \<and> (\<forall>t \<in> set ts. \<not> stop_called t)"
proof (induction ts arbitrary: lg w)
  case Nil
  then show ?case by (simp split: if_splits)
next
  case (Cons t ts)
  have run: "logger_running lg" using Cons.prems by (auto split: if_splits)
  obtain r w1 where body: "loop_body str lg t w = (r, w1)" by (cases "loop_body str lg t w")
  have r: "r = None" using Cons.prems run body by (cases r) simp_all
  obtain lg2 w2 where at: "after_tick t lg w1 = (lg2, w2)" by (cases "after_tick t lg w1")
  have "logging_loop str ts lg2 w2 = None" using Cons.prems run body r at by simp
  from Cons.IH [OF this] have ih: "logger_running lg2" "\<forall>t \<in> set ts. \<not> stop_called t" by simp_all
  have "\<not> stop_called t" using ih(1) at by (auto simp: after_tick_def stop_logging_def split: if_splits)
  then show ?case using run ih(2) by simp
qed

lemma start_logging_ends:
  assumes "open_fault ev \<noteq> None \<or> header_fault ev \<noteq> None \<or> (\<exists>t \<in> set (ticks ev). stop_called t)"
  shows "start_logging str ev lg w \<noteq> None"
proof (cases "open_fault ev")
  case (Some e)
  then show ?thesis by (simp add: start_logging_def Let_def)
next
  case None
  let ?lg2 = "lg\<lparr>logger_running := True, file_handle := Some (opened w)\<rparr>"
  let ?w2 = "(log_msg ''Starting telemetry logging'' w)
       \<lparr>opened := opened w + 1, written := [], pending := []\<rparr>"
  obtain hr w3 where hw: "file_write (csv_header @ newline) (header_fault ev) ?w2 = (hr, w3)"
    by (cases "file_write (csv_header @ newline) (header_fault ev) ?w2")
  show ?thesis
  proof (cases hr)
    case (Some e)
    then show ?thesis using None hw by (simp add: start_logging_def Let_def)
  next
    case hNone: None
    have "header_fault ev = None"
      using hw hNone by (cases "header_fault ev") (auto simp: file_write_def Let_def)
    then have "\<exists>t \<in> set (ticks ev). stop_called t" using assms None by simp
    then have "logging_loop str (ticks ev) ?lg2 w3 \<noteq> None"
      using logging_loop_unfinished [of str "ticks ev" ?lg2 w3] by blast
    then obtain r lg3 w4 where loop: "logging_loop str (ticks ev) ?lg2 w3 = Some (r, lg3, w4)"
      by (cases "logging_loop str (ticks ev) ?lg2 w3") auto
    show ?thesis
      using None hNone hw loop by (cases r) (simp_all add: start_logging_def Let_def)
  qed
qed

text \<open>
  C3.  \<^verbatim>\<open>start_logging\<close> is called on a logger as its constructor leaves it.  On every
  path on which the call ends, whether it returns or lets an exception through, either
  \<^verbatim>\<open>open\<close> has failed and no file has been opened or closed, or one file has been opened
  and \<^verbatim>\<open>close\<close> has been called once: after a normal stop by the flag, after a failure
  to write the header, and after an exception that leaves the loop.  The call does end
  when \<^verbatim>\<open>open\<close> or the write of the header fails, and when \<^verbatim>\<open>stop_logging\<close> is called
  during some iteration.
\<close>

theorem start_logging_closes_once:
  "(start_logging str ev (FcTelemetryLogger_init c name) w = Some (out, lg', w') \<longrightarrow>
      ((open_fault ev \<noteq> None \<and> opened w' = opened w \<and> closed w' = closed w)
       \<or> (open_fault ev = None \<and> opened w' = opened w + 1 \<and> closed w' = closed w + 1)))
   \<and> (open_fault ev \<noteq> None \<or> header_fault ev \<noteq> None
        \<or> (\<exists>t \<in> set (ticks ev). stop_called t) \<longrightarrow>
      start_logging str ev (FcTelemetryLogger_init c name) w \<noteq> None)"
proof (intro conjI impI)
  assume "start_logging str ev (FcTelemetryLogger_init c name) w = Some (out, lg', w')"
  then show "(open_fault ev \<noteq> None \<and> opened w' = opened w \<and> closed w' = closed w)
       \<or> (open_fault ev = None \<and> opened w' = opened w + 1 \<and> closed w' = closed w + 1)"
    by (rule start_logging_counts)
next
  assume "open_fault ev \<noteq> None \<or> header_fault ev \<noteq> None
        \<or> (\<exists>t \<in> set (ticks ev). stop_called t)"
  then show "start_logging str ev (FcTelemetryLogger_init c name) w \<noteq> None"
    by (rule start_logging_ends)
qed

theorem start_logging_closes_once_witness:
  "(\<exists>out lg' w'. start_logging (\<lambda>v. [])
        \<lparr>open_fault = Some Exception, header_fault = None, close_fault = None, ticks = []\<rparr>
        (FcTelemetryLogger_init \<lparr>current_data = 0, collector_running = True\<rparr> ''log.csv'')
        \<lparr>opened = 0, closed = 0, written = [], pending = [], logged = []\<rparr> = Some (out, lg', w')
      \<and> out = Returned \<and> opened w' = 0 \<and> closed w' = 0)
   \<and> (\<exists>out lg' w'. start_logging (\<lambda>v. [])
        \<lparr>open_fault = None, header_fault = None, close_fault = None,
          ticks = [\<lparr>tick_heap = [FcTelemetryData_init (Finite 0)], tick_now = 1,
            read_fault = None, row_fault = None, append_fault = None, sleep_fault = None,
            handler_sleep_fault = None, stop_called = True\<rparr>]\<rparr>
        (FcTelemetryLogger_init \<lparr>current_data = 0, collector_running = True\<rparr> ''log.csv'')
        \<lparr>opened = 0, closed = 0, written = [], pending = [], logged = []\<rparr> = Some (out, lg', w')
      \<and> out = Returned \<and> opened w' = 1 \<and> closed w' = 1)
   \<and> (\<exists>out lg' w'. start_logging (\<lambda>v. [])
        \<lparr>open_fault = None, header_fault = None, close_fault = None,
          ticks = [\<lparr>tick_heap = [FcTelemetryData_init (Finite 0)], tick_now = 1,
            read_fault = Some Exception, row_fault = None, append_fault = None,
            sleep_fault = None, handler_sleep_fault = Some Exception, stop_called = False\<rparr>]\<rparr>
        (FcTelemetryLogger_init \<lparr>current_data = 0, collector_running = True\<rparr> ''log.csv'')
        \<lparr>opened = 0, closed = 0, written = [], pending = [], logged = []\<rparr> = Some (out, lg', w')
      \<and> out = Returned \<and> opened w' = 1 \<and> closed w' = 1)"
proof (intro conjI)
  let ?lg = "FcTelemetryLogger_init \<lparr>current_data = 0, collector_running = True\<rparr> ''log.csv''"
  let ?w = "\<lparr>opened = 0, closed = 0, written = [], pending = [], logged = []\<rparr>"
  let ?ev1 = "\<lparr>open_fault = Some Exception, header_fault = None, close_fault = None, ticks = []\<rparr>"
  let ?ev2 = "\<lparr>open_fault = None, header_fault = None, close_fault = None,
          ticks = [\<lparr>tick_heap = [FcTelemetryData_init (Finite 0)], tick_now = 1,
            read_fault = None, row_fault = None, append_fault = None, sleep_fault = None,
            handler_sleep_fault = None, stop_called = True\<rparr>]\<rparr>"
  let ?ev3 = "\<lparr>open_fault = None, header_fault = None, close_fault = None,
          ticks = [\<lparr>tick_heap = [FcTelemetryData_init (Finite 0)], tick_now = 1,
            read_fault = Some Exception, row_fault = None, append_fault = None,
            sleep_fault = None, handler_sleep_fault = Some Exception, stop_called = False\<rparr>]\<rparr>"
  obtain row where row: "to_csv_row (\<lambda>v. []) (replace_timestamp_ms (FcTelemetryData_init (Finite 0))
      (Finite (1 * 1000))) = Inr row"
    using to_csv_row_returns by blast
  have "\<exists>lg' w'. start_logging (\<lambda>v. []) ?ev1 ?lg ?w = Some (Returned, lg', w')"
    by (simp add: start_logging_def outer_handler_def finally_close_def Let_def
        FcTelemetryLogger_init_def)
  then obtain lg1 w1 where r1: "start_logging (\<lambda>v. []) ?ev1 ?lg ?w = Some (Returned, lg1, w1)"
    by blast
  from start_logging_closes_once [THEN conjunct1, rule_format, OF r1] r1
  show "\<exists>out lg' w'. start_logging (\<lambda>v. []) ?ev1 ?lg ?w = Some (out, lg', w')
      \<and> out = Returned \<and> opened w' = 0 \<and> closed w' = 0"
    by simp
  have "\<exists>lg' w'. start_logging (\<lambda>v. []) ?ev2 ?lg ?w = Some (Returned, lg', w')"
    using row
    by (simp add: start_logging_def loop_body_def loop_try_def get_latest_data_def
        after_tick_def stop_logging_def FcTelemetryLogger_init_def Let_def
        file_write_def finally_close_def file_close_def)
  then obtain lg2 w2 where r2: "start_logging (\<lambda>v. []) ?ev2 ?lg ?w = Some (Returned, lg2, w2)"
    by blast
  from start_logging_closes_once [THEN conjunct1, rule_format, OF r2] r2
  show "\<exists>out lg' w'. start_logging (\<lambda>v. []) ?ev2 ?lg ?w = Some (out, lg', w')
      \<and> out = Returned \<and> opened w' = 1 \<and> closed w' = 1"
    by simp
  have "\<exists>lg' w'. start_logging (\<lambda>v. []) ?ev3 ?lg ?w = Some (Returned, lg', w')"
    by (simp add: start_logging_def loop_body_def loop_try_def outer_handler_def
        FcTelemetryLogger_init_def Let_def file_write_def finally_close_def file_close_def)
  then obtain lg3 w3 where r3: "start_logging (\<lambda>v. []) ?ev3 ?lg ?w = Some (Returned, lg3, w3)"
    by blast
  from start_logging_closes_once [THEN conjunct1, rule_format, OF r3] r3
  show "\<exists>out lg' w'. start_logging (\<lambda>v. []) ?ev3 ?lg ?w = Some (out, lg', w')
      \<and> out = Returned \<and> opened w' = 1 \<and> closed w' = 1"
    by simp
qed






section \<open>Stopping the tasks\<close>
















end
